theory Spec2Isabelle
  imports Complex_Main "HOL-Library.Multiset" "HOL-Library.Char_ord" "HOL-Library.List_Lexorder"
    "HOL-Library.Word" "HOL-Library.Sublist"
begin

section \<open>Data model\<close>

text \<open>
  The program is \<^verbatim>\<open>covid_19_dashboard.py\<close>: it reads the Johns Hopkins table of confirmed
  cases, builds two module-level pandas frames (\<open>data\<close>, the cumulative table, and
  \<open>daily_cases\<close>, its first difference) and registers one callback, \<open>update_graphs\<close>,
  that answers every change of the three filter widgets with four figures.

  A pandas frame is modelled by its index (the row labels) and its columns, each column a
  name with one value per row. Frames are rectangular: every column is as long as the index.
  A cell that pandas would print as NaN is \<open>None\<close>; an index entry that pandas would print
  as NaT is \<open>None\<close> too. A timestamp is an instant on a linear time axis, counted in whole
  units from some epoch.
\<close>

type_synonym timestamp = int

record ('i, 'v) frame =
  index :: "'i list"
  cols :: "(string \<times> 'v list) list"

definition columns :: "('i, 'v) frame \<Rightarrow> string list" where
  "columns df = map fst (cols df)"


section \<open>Numbers\<close>

text \<open>
  The counts of the source are whole numbers. pandas keeps a column of whole numbers as
  int64, and a column that has a missing cell as float64. A cell of a frame is therefore
  one of the two: \<open>I w\<close>, the 64-bit two's complement integer \<open>w\<close>, whose arithmetic wraps
  at \<open>2^63\<close>; or \<open>F x\<close>, the float64 whose value is the whole number \<open>x\<close>. Every operation of
  the program takes whole numbers to whole numbers, so no other float64 occurs. A float64
  has 53 significant bits: \<open>round_f64\<close> is the rounding of IEEE 754 to the nearest
  float64, ties to the even significand. The exponent range of float64, which ends near
  \<open>2^1024\<close>, is not modelled.
\<close>

datatype num = I "64 word" | F int

definition num_val :: "num \<Rightarrow> int" where
  "num_val v = (case v of I w \<Rightarrow> sint w | F x \<Rightarrow> x)"

function f64_exponent :: "int \<Rightarrow> nat" where
  "f64_exponent m = (if m < 2 ^ 53 then 0 else Suc (f64_exponent (m div 2)))"
  by pat_completeness auto

termination
  by (relation "measure nat") auto

declare f64_exponent.simps [simp del]

definition round_f64 :: "int \<Rightarrow> int" where
  "round_f64 n =
     (let m = \<bar>n\<bar>; u = 2 ^ f64_exponent m; q = m div u; r = m mod u
      in sgn n * ((if u < 2 * r \<or> (2 * r = u \<and> odd q) then q + 1 else q) * u))"

text \<open>The conversion of a cell to float64, \<open>astype(float64)\<close>.\<close>

definition float_val :: "num \<Rightarrow> int" where
  "float_val v = (case v of I w \<Rightarrow> round_f64 (sint w) | F x \<Rightarrow> x)"

definition is_int64 :: "num \<Rightarrow> bool" where
  "is_int64 v = (case v of I w \<Rightarrow> True | F x \<Rightarrow> False)"

text \<open>
  The table that \<open>pd.read_csv(url)\<close> returns (line 15): one row per country or province, with
  the four label columns of the source file and one count per date column. \<open>read_csv\<close> fills
  a cell that the file leaves empty, or a row that ends early, with NaN. A date column
  without NaN is an int64 column; a date column with a NaN is a float64 column, and a count
  \<open>w\<close> in it is the float64 nearest to \<open>w\<close>.
\<close>

record raw_row =
  province_state :: "string option"
  country_region :: "string option"
  lat :: "real option"
  long :: "real option"
  counts :: "64 word option list"

record raw_source =
  date_headers :: "string list"
  raw_rows :: "raw_row list"

section \<open>The loader (lines 15 to 22)\<close>

text \<open>\<open>data.drop(['Province/State', 'Lat', 'Long'], axis=1)\<close>: the country label and the date
  columns remain.\<close>

definition drop_columns :: "raw_source \<Rightarrow> string list \<times> (string option \<times> 64 word option list) list" where
  "drop_columns src = (date_headers src, map (\<lambda>r. (country_region r, counts r)) (raw_rows src))"

definition cell :: "'v option list \<Rightarrow> nat \<Rightarrow> 'v option" where
  "cell cs j = (if j < length cs then cs ! j else None)"

text \<open>The dtype of date column \<open>j\<close>: int64 when no row of the table has a NaN there.\<close>

definition int64_column :: "(string option \<times> 64 word option list) list \<Rightarrow> nat \<Rightarrow> bool" where
  "int64_column rs j = list_all (\<lambda>r. cell (snd r) j \<noteq> None) rs"

text \<open>
  The sum of one group in one date column. In an int64 column it is the sum of the cells in
  int64, which wraps. In a float64 column it is the sum of pandas over float64 that skips
  NaN; that summation is library code and is the parameter \<open>float_sum\<close>, which receives
  the cells of the group in the order of the rows, as float64 values or NaN.
\<close>

definition group_sum ::
  "(int option list \<Rightarrow> int) \<Rightarrow> (string option \<times> 64 word option list) list \<Rightarrow> nat \<Rightarrow> string \<Rightarrow> num" where
  "group_sum float_sum rs j k =
     (let cells = map (\<lambda>r. cell (snd r) j) (filter (\<lambda>r. fst r = Some k) rs)
      in if int64_column rs j then I (sum_list (List.map_filter id cells))
         else F (float_sum (map (map_option (\<lambda>w. round_f64 (sint w))) cells)))"

text \<open>\<open>groupby('Country/Region')\<close> with its defaults: rows without a key are left out, and the
  groups come in the sorted order of their keys.\<close>

definition group_keys :: "(string option \<times> 'a) list \<Rightarrow> string list" where
  "group_keys rs = sort (remdups (List.map_filter fst rs))"

definition groupby_sum ::
  "(int option list \<Rightarrow> int) \<Rightarrow> string list \<times> (string option \<times> 64 word option list) list \<Rightarrow>
   (string, num option) frame" where
  "groupby_sum float_sum t = (case t of (hs, rs) \<Rightarrow>
     \<lparr>index = group_keys rs,
      cols = map (\<lambda>(j, h). (h, map (\<lambda>k. Some (group_sum float_sum rs j k)) (group_keys rs)))
                 (enumerate 0 hs)\<rparr>)"

text \<open>\<open>.T\<close>: the row labels become the column names and the column names the row labels.
  The transposed table has one dtype: int64 when every column was int64, and float64
  otherwise, every int64 cell converted.\<close>

definition transpose_frame :: "(string, 'v) frame \<Rightarrow> (string, 'v) frame" where
  "transpose_frame df =
     \<lparr>index = map fst (cols df),
      cols = map (\<lambda>(i, k). (k, map (\<lambda>c. snd c ! i) (cols df))) (enumerate 0 (index df))\<rparr>"

definition holds_float64 :: "('i, num option) frame \<Rightarrow> bool" where
  "holds_float64 df = list_ex (\<lambda>c. list_ex (\<lambda>v. case v of Some (F x) \<Rightarrow> True | _ \<Rightarrow> False) (snd c)) (cols df)"

definition common_dtype :: "('i, num option) frame \<Rightarrow> ('i, num option) frame" where
  "common_dtype df =
     (if holds_float64 df
      then \<lparr>index = index df,
            cols = map (\<lambda>(c, vs). (c, map (map_option (\<lambda>v. F (float_val v))) vs)) (cols df)\<rparr>
      else df)"

text \<open>\<open>data.index = pd.to_datetime(data.index, errors='coerce')\<close> (line 21). The parser of
  pandas is not part of the program: it is the parameter \<open>to_datetime\<close>, which gives
  \<open>None\<close> (NaT) for a label that is no date.\<close>

definition set_index_datetime ::
  "(string \<Rightarrow> timestamp option) \<Rightarrow> (string, 'v) frame \<Rightarrow> (timestamp option, 'v) frame" where
  "set_index_datetime to_datetime df = \<lparr>index = map to_datetime (index df), cols = cols df\<rparr>"

text \<open>\<open>data.dropna()\<close> (line 22) keeps the rows all of whose cells are numbers. It looks
  at the cells only, never at the index.\<close>

definition notna_row :: "(string \<times> 'v option list) list \<Rightarrow> nat \<Rightarrow> bool" where
  "notna_row cs i = list_all (\<lambda>c. cell (snd c) i \<noteq> None) cs"

definition keep :: "bool list \<Rightarrow> 'a list \<Rightarrow> 'a list" where
  "keep sel xs = map snd (filter fst (zip sel xs))"

definition dropna :: "('i, 'v option) frame \<Rightarrow> ('i, 'v) frame" where
  "dropna df =
     (let sel = map (notna_row (cols df)) [0..<length (index df)]
      in \<lparr>index = keep sel (index df),
          cols = map (\<lambda>(c, vs). (c, List.map_filter id (keep sel vs))) (cols df)\<rparr>)"

text \<open>Lines 15 to 22 together: the cumulative table \<open>data\<close>.\<close>

definition load_data ::
  "(string \<Rightarrow> timestamp option) \<Rightarrow> (int option list \<Rightarrow> int) \<Rightarrow> raw_source \<Rightarrow> (timestamp option, num) frame" where
  "load_data to_datetime float_sum src =
     dropna (set_index_datetime to_datetime
               (common_dtype (transpose_frame (groupby_sum float_sum (drop_columns src)))))"

section \<open>The daily table (line 25)\<close>

text \<open>
  \<open>data.diff()\<close>: each row minus the row before it; the first row has no row before it
  and is NaN. The result is float64 whatever the table holds. On an int64 table the
  subtraction is done in int64, where it wraps, and its result is converted to float64; on
  a float64 table it is the subtraction of float64.
\<close>

definition diff_num :: "num \<Rightarrow> num \<Rightarrow> num" where
  "diff_num cur prev =
     (case (cur, prev) of
        (I a, I b) \<Rightarrow> F (round_f64 (sint (a - b)))
      | _ \<Rightarrow> F (round_f64 (float_val cur - float_val prev)))"

fun diff_col :: "num list \<Rightarrow> num option list" where
  "diff_col [] = []"
| "diff_col (v # vs) = None # map2 (\<lambda>cur prev. Some (diff_num cur prev)) vs (v # vs)"

definition diff :: "('i, num) frame \<Rightarrow> ('i, num option) frame" where
  "diff df = \<lparr>index = index df, cols = map (\<lambda>(c, vs). (c, diff_col vs)) (cols df)\<rparr>"

definition fillna :: "'v \<Rightarrow> ('i, 'v option) frame \<Rightarrow> ('i, 'v) frame" where
  "fillna z df =
     \<lparr>index = index df,
      cols = map (\<lambda>(c, vs). (c, map (\<lambda>v. case v of None \<Rightarrow> z | Some x \<Rightarrow> x) vs)) (cols df)\<rparr>"

definition build_daily_cases :: "('i, num) frame \<Rightarrow> ('i, num) frame" where
  "build_daily_cases df = fillna (F 0) (diff df)"

section \<open>The callback (lines 76 to 134)\<close>

text \<open>
  What the callback can raise. The program defines no exception of its own; these are the
  exceptions of the libraries it calls: a slice bound that is no date (\<open>DateParseError\<close>),
  a label that the frame does not have (\<open>KeyError\<close>), a plot of a column that the frame
  does not have (the ValueError of plotly express, \<open>UnknownEntityError\<close>), and a position
  outside the frame (\<open>IndexError\<close>).
\<close>

datatype error = DateParseError | KeyError | UnknownEntityError | IndexError

text \<open>A figure is the data it draws: one trace per plotted column, the pairs of x and y.
  An output of the callback is a figure or \<open>dash.no_update\<close>.\<close>

datatype 'a update = NoUpdate | Figure 'a

type_synonym trace = "string \<times> (timestamp option \<times> num) list"

type_synonym figure = "trace list"

type_synonym outputs = "figure update \<times> figure update \<times> figure update \<times> figure update"

text \<open>The two module-level frames that the callback reads.\<close>

record globals =
  data :: "(timestamp option, num) frame"
  daily_cases :: "(timestamp option, num) frame"

text \<open>\<open>not x\<close> for a widget value, which is \<open>None\<close> or a string.\<close>

definition py_not :: "string option \<Rightarrow> bool" where
  "py_not a = (case a of None \<Rightarrow> True | Some s \<Rightarrow> s = [])"

text \<open>
  \<open>df.loc[start_date:end_date]\<close> on a datetime index, with strings as bounds (pandas 2).
  A bound is read as a period: \<open>str_bounds\<close>, a parameter like \<open>to_datetime\<close>, gives the
  first and the last instant of the period that a string names, or \<open>None\<close> when it names
  none. The slice runs from the first instant of the start to the last instant of the end.
  On an index that is monotonic increasing (no NaT, never decreasing) the slice is found by
  binary search, which selects the rows in the window. On any other index both bounds
  must be labels of the index, or pandas raises KeyError; the rows in the window are selected
  then too. A NaT label is in no window.
\<close>

definition is_monotonic_increasing :: "timestamp option list \<Rightarrow> bool" where
  "is_monotonic_increasing ix = (case those ix of None \<Rightarrow> False | Some ts \<Rightarrow> sorted ts)"

definition in_window :: "timestamp \<Rightarrow> timestamp \<Rightarrow> timestamp option \<Rightarrow> bool" where
  "in_window lo hi t = (case t of None \<Rightarrow> False | Some u \<Rightarrow> lo \<le> u \<and> u \<le> hi)"

definition loc ::
  "(string \<Rightarrow> (timestamp \<times> timestamp) option) \<Rightarrow> (timestamp option, 'v) frame \<Rightarrow>
   string \<Rightarrow> string \<Rightarrow> error + (timestamp option, 'v) frame" where
  "loc str_bounds df start_date end_date =
     (case str_bounds start_date of
        None \<Rightarrow> Inl DateParseError
      | Some (lo, _) \<Rightarrow>
          (case str_bounds end_date of
             None \<Rightarrow> Inl DateParseError
           | Some (_, hi) \<Rightarrow>
               if is_monotonic_increasing (index df)
                  \<or> (Some lo \<in> set (index df) \<and> Some hi \<in> set (index df))
               then (let sel = map (in_window lo hi) (index df)
                     in Inr \<lparr>index = keep sel (index df),
                             cols = map (\<lambda>(c, vs). (c, keep sel vs)) (cols df)\<rparr>)
               else Inl KeyError))"

text \<open>\<open>df.iloc[-1]\<close>: the last row, as a series over the column names; on a frame without
  rows pandas raises IndexError.\<close>

definition last_row :: "('i, 'v) frame \<Rightarrow> (string \<times> 'v) list" where
  "last_row df = map (\<lambda>(c, vs). (c, last vs)) (cols df)"

definition iloc_last :: "('i, 'v) frame \<Rightarrow> error + (string \<times> 'v) list" where
  "iloc_last df = (if index df = [] then Inl IndexError else Inr (last_row df))"

text \<open>
  Line 114: \<open>filtered_data.iloc[-1].sort_values(ascending=False).head(5).index\<close>.
  \<open>sort_values\<close> is called with the default \<open>kind='quicksort'\<close>. pandas sorts a series
  of numbers through numpy: it takes the values (in reverse when \<open>ascending=False\<close>), asks
  \<open>ndarray.argsort\<close> for the positions that put them in ascending order, maps these
  positions back to the positions of the series, and reverses the result when
  \<open>ascending=False\<close>. The sort of numpy is library code and is the parameter \<open>argsort\<close>;
  it returns positions below the length of its argument.
\<close>

definition sort_values :: "(num list \<Rightarrow> nat list) \<Rightarrow> bool \<Rightarrow> (string \<times> num) list \<Rightarrow> (string \<times> num) list" where
  "sort_values argsort ascending row =
     (let idx = [0..<length row];
          items = (if ascending then map snd row else rev (map snd row));
          positions = (if ascending then idx else rev idx);
          indexer = map (\<lambda>k. positions ! k) (argsort items)
      in map (\<lambda>i. row ! i) (if ascending then indexer else rev indexer))"

definition top_countries ::
  "(num list \<Rightarrow> nat list) \<Rightarrow> ('i, num) frame \<Rightarrow> error + string list" where
  "top_countries argsort filtered_data =
     (case iloc_last filtered_data of
        Inl err \<Rightarrow> Inl err
      | Inr row \<Rightarrow> Inr (map fst (take 5 (sort_values argsort False row))))"

text \<open>\<open>df[names]\<close>: the named columns, in the order of the names.\<close>

definition getitem_cols :: "('i, 'v) frame \<Rightarrow> string list \<Rightarrow> error + ('i, 'v) frame" where
  "getitem_cols df names =
     (case those (map (\<lambda>c. map_option (Pair c) (map_of (cols df) c)) names) of
        None \<Rightarrow> Inl KeyError
      | Some cs \<Rightarrow> Inr \<lparr>index = index df, cols = cs\<rparr>)"

text \<open>\<open>px.line(df, x=..., y=...)\<close> and \<open>px.bar\<close>: plotly express checks that every name in
  \<open>y\<close> is a column of the frame and draws one trace for each.\<close>

fun collect :: "('e + 'a) list \<Rightarrow> 'e + 'a list" where
  "collect [] = Inr []"
| "collect (Inl e # _) = Inl e"
| "collect (Inr a # rs) = (case collect rs of Inl e \<Rightarrow> Inl e | Inr as \<Rightarrow> Inr (a # as))"

definition px_trace :: "(timestamp option, num) frame \<Rightarrow> timestamp option list \<Rightarrow> string \<Rightarrow> error + trace" where
  "px_trace df x y =
     (case map_of (cols df) y of None \<Rightarrow> Inl UnknownEntityError | Some vs \<Rightarrow> Inr (y, zip x vs))"

definition px_line :: "(timestamp option, num) frame \<Rightarrow> timestamp option list \<Rightarrow> string list \<Rightarrow> error + figure" where
  "px_line df x ys = collect (map (px_trace df x) ys)"

definition px_bar :: "(timestamp option, num) frame \<Rightarrow> timestamp option list \<Rightarrow> string list \<Rightarrow> error + figure" where
  "px_bar df x ys = collect (map (px_trace df x) ys)"

text \<open>Lines 90 to 134: the body of the callback after its guard.\<close>

definition figures ::
  "(num list \<Rightarrow> nat list) \<Rightarrow> (string \<Rightarrow> (timestamp \<times> timestamp) option) \<Rightarrow>
   globals \<Rightarrow> string \<Rightarrow> string \<Rightarrow> string \<Rightarrow> error + outputs" where
  "figures argsort str_bounds g selected_country start_date end_date =
     (case loc str_bounds (data g) start_date end_date of Inl err \<Rightarrow> Inl err | Inr filtered_data \<Rightarrow>
      case loc str_bounds (daily_cases g) start_date end_date of Inl err \<Rightarrow> Inl err | Inr filtered_daily \<Rightarrow>
      case px_line filtered_data (index filtered_data) [selected_country] of Inl err \<Rightarrow> Inl err | Inr fig_cumulative \<Rightarrow>
      case px_bar filtered_daily (index filtered_daily) [selected_country] of Inl err \<Rightarrow> Inl err | Inr fig_daily \<Rightarrow>
      case top_countries argsort filtered_data of Inl err \<Rightarrow> Inl err | Inr top5 \<Rightarrow>
      case getitem_cols filtered_data top5 of Inl err \<Rightarrow> Inl err | Inr top_data \<Rightarrow>
      case px_line top_data (index filtered_data) top5 of Inl err \<Rightarrow> Inl err | Inr fig_top_cumulative \<Rightarrow>
      case getitem_cols filtered_daily top5 of Inl err \<Rightarrow> Inl err | Inr top_daily \<Rightarrow>
      case px_line top_daily (index filtered_daily) top5 of Inl err \<Rightarrow> Inl err | Inr fig_top_daily \<Rightarrow>
      Inr (Figure fig_cumulative, Figure fig_daily, Figure fig_top_cumulative, Figure fig_top_daily))"

text \<open>
  The callback. It reads the two frames and assigns to neither, so the globals it leaves
  behind are the globals it found, whether it returns or raises.
\<close>

definition update_graphs ::
  "(num list \<Rightarrow> nat list) \<Rightarrow> (string \<Rightarrow> (timestamp \<times> timestamp) option) \<Rightarrow>
   globals \<Rightarrow> string option \<Rightarrow> string option \<Rightarrow> string option \<Rightarrow> (error + outputs) \<times> globals" where
  "update_graphs argsort str_bounds g selected_country start_date end_date =
     (if py_not selected_country \<or> py_not start_date \<or> py_not end_date
      then (Inr (NoUpdate, NoUpdate, NoUpdate, NoUpdate), g)
      else (case (selected_country, start_date, end_date) of
              (Some c, Some s, Some e) \<Rightarrow> (figures argsort str_bounds g c s e, g)
            | _ \<Rightarrow> (Inr (NoUpdate, NoUpdate, NoUpdate, NoUpdate), g)))"

section \<open>Auxiliary definitions and example tables\<close>

definition group_total :: "(int option list \<Rightarrow> int) \<Rightarrow> raw_source \<Rightarrow> string \<Rightarrow> nat \<Rightarrow> num" where
  "group_total float_sum src k j =
     group_sum float_sum (map (\<lambda>r. (country_region r, counts r)) (raw_rows src)) j k"

definition entity_keys :: "raw_source \<Rightarrow> string list" where
  "entity_keys src = group_keys (map (\<lambda>r. (country_region r, counts r)) (raw_rows src))"

text \<open>Whether the loaded table is a float64 table: some date column had a missing cell.\<close>

definition float_table :: "(int option list \<Rightarrow> int) \<Rightarrow> raw_source \<Rightarrow> bool" where
  "float_table float_sum src =
     list_ex (\<lambda>k. list_ex (\<lambda>j. \<not> is_int64 (group_total float_sum src k j))
                        [0..<length (date_headers src)])
       (entity_keys src)"

text \<open>The value of a group sum in the dtype of the loaded table.\<close>

definition table_dtype :: "(int option list \<Rightarrow> int) \<Rightarrow> raw_source \<Rightarrow> num \<Rightarrow> num" where
  "table_dtype float_sum src v = (if float_table float_sum src then F (float_val v) else v)"





text \<open>A sort of positions that keeps equal values in their order, as \<open>kind='stable'\<close>.\<close>

definition stable_argsort :: "num list \<Rightarrow> nat list" where
  "stable_argsort xs = map fst (sort_key (\<lambda>p. num_val (snd p)) (enumerate 0 xs))"

text \<open>A summation over float64 for the examples: from left to right, NaN skipped.\<close>

definition demo_float_sum :: "int option list \<Rightarrow> int" where
  "demo_float_sum xs = foldl (\<lambda>s x. case x of None \<Rightarrow> s | Some v \<Rightarrow> round_f64 (s + v)) 0 xs"

definition ranking_example :: "(timestamp option, num) frame" where
  "ranking_example =
     \<lparr>index = [Some 10, Some 20, Some 30],
      cols = [(''A'', [I 1, I 5, I 100]), (''B'', [I 2, I 40, I 90]), (''C'', [I 3, I 30, I 90]),
              (''D'', [I 4, I 20, I 80]), (''E'', [I 5, I 10, I 70]), (''F'', [I 6, I 50, I 60])]\<rparr>"

definition demo_str_bounds :: "string \<Rightarrow> (timestamp \<times> timestamp) option" where
  "demo_str_bounds =
     map_of [(''2020-01-22'', (10, 19)), (''2020-01-23'', (20, 29)), (''2020-01-24'', (30, 39)),
             (''2020-02-01'', (110, 119))]"

definition demo_globals :: globals where
  "demo_globals = \<lparr>data = ranking_example, daily_cases = build_daily_cases ranking_example\<rparr>"



definition demo_to_datetime :: "string \<Rightarrow> timestamp option" where
  "demo_to_datetime = map_of [(''1/22/20'', 10), (''1/23/20'', 20), (''1/24/20'', 30)]"


definition missing_cell :: raw_source where
  "missing_cell =
     \<lparr>date_headers = [''1/22/20'', ''1/23/20''],
      raw_rows =
        [\<lparr>province_state = Some ''Ontario'', country_region = Some ''Canada'',
          lat = Some 51, long = Some (- 85), counts = [Some 5, Some 8]\<rparr>,
         \<lparr>province_state = None, country_region = Some ''France'',
          lat = Some 46, long = Some 2, counts = [Some 3, None]\<rparr>,
         \<lparr>province_state = Some ''Quebec'', country_region = Some ''Canada'',
          lat = Some 53, long = Some (- 74), counts = [Some 7, Some 9]\<rparr>]\<rparr>"


definition no_dates :: raw_source where
  "no_dates =
     \<lparr>date_headers = [],
      raw_rows =
        [\<lparr>province_state = None, country_region = Some ''France'',
          lat = Some 46, long = Some 2, counts = []\<rparr>]\<rparr>"

definition no_rows_no_dates :: raw_source where
  "no_rows_no_dates = \<lparr>date_headers = [], raw_rows = []\<rparr>"


section \<open>Properties\<close>

lemma keep_all: "length sel = length xs \<Longrightarrow> \<forall>b\<in>set sel. b \<Longrightarrow> keep sel xs = xs"
proof (induction sel arbitrary: xs)
  case Nil
  then show ?case by (simp add: keep_def)
next
  case (Cons b sel)
  then obtain y ys where xs: "xs = y # ys" by (cases xs) auto
  with Cons.prems have "keep sel ys = ys" by (intro Cons.IH) auto
  with Cons.prems xs show ?case by (simp add: keep_def)
qed

lemma map_filter_id_Some: "List.map_filter id (map (\<lambda>j. Some (f j)) js) = map f js"
  by (induction js) (simp_all add: List.map_filter_simps)

lemma groupby_sum_eq:
  "groupby_sum fs (drop_columns src) =
     \<lparr>index = entity_keys src,
      cols = map (\<lambda>(j, h). (h, map (\<lambda>k. Some (group_total fs src k j)) (entity_keys src)))
                 (enumerate 0 (date_headers src))\<rparr>"
  by (simp add: groupby_sum_def drop_columns_def entity_keys_def group_total_def)

lemma transposed_cols:
  "cols (transpose_frame (groupby_sum fs (drop_columns src))) =
     map (\<lambda>k. (k, map (\<lambda>j. Some (group_total fs src k j)) [0..<length (date_headers src)]))
         (entity_keys src)"
proof -
  let ?ks = "entity_keys src" and ?hs = "date_headers src"
  let ?CS = "map (\<lambda>(j, h). (h, map (\<lambda>k. Some (group_total fs src k j)) ?ks)) (enumerate 0 ?hs)"
  have row: "map (\<lambda>c. snd c ! i) ?CS = map (\<lambda>j. Some (group_total fs src (?ks ! i) j)) [0..<length ?hs]"
    if "i < length ?ks" for i
  proof -
    have "map (\<lambda>c. snd c ! i) ?CS = map (\<lambda>p. Some (group_total fs src (?ks ! i) (fst p))) (enumerate 0 ?hs)"
      using that by (simp add: case_prod_unfold)
    also have "\<dots> = map (\<lambda>j. Some (group_total fs src (?ks ! i) j)) (map fst (enumerate 0 ?hs))"
      by (simp only: map_map o_def)
    finally show ?thesis by simp
  qed
  have "cols (transpose_frame (groupby_sum fs (drop_columns src))) =
        map (\<lambda>(i, k). (k, map (\<lambda>c. snd c ! i) ?CS)) (enumerate 0 ?ks)"
    by (simp add: transpose_frame_def groupby_sum_eq)
  also have "\<dots> = map (\<lambda>p. (snd p, map (\<lambda>j. Some (group_total fs src (snd p) j)) [0..<length ?hs]))
                      (enumerate 0 ?ks)"
    by (rule map_cong) (auto simp: in_set_enumerate_eq row simp del: map_map)
  also have "\<dots> = map (\<lambda>k. (k, map (\<lambda>j. Some (group_total fs src k j)) [0..<length ?hs]))
                      (map snd (enumerate 0 ?ks))"
    by (simp only: map_map o_def)
  finally show ?thesis by simp
qed

lemma transposed_index:
  "index (transpose_frame (groupby_sum fs (drop_columns src))) = date_headers src"
proof -
  have "map fst (map (\<lambda>(j, h). (h, f j)) (enumerate 0 hs)) = hs" for f :: "nat \<Rightarrow> 'b" and hs :: "string list"
  proof -
    have "map fst (map (\<lambda>(j, h). (h, f j)) (enumerate 0 hs)) = map snd (enumerate 0 hs)"
      by (simp add: case_prod_unfold o_def)
    then show ?thesis by simp
  qed
  then show ?thesis by (simp add: transpose_frame_def groupby_sum_eq)
qed

lemma holds_float64_transposed:
  "holds_float64 (transpose_frame (groupby_sum fs (drop_columns src))) = float_table fs src"
  by (simp add: holds_float64_def transposed_cols float_table_def list_ex_iff is_int64_def
        split: num.splits) 

lemma common_dtype_cols:
  "cols (common_dtype (transpose_frame (groupby_sum fs (drop_columns src)))) =
     map (\<lambda>k. (k, map (\<lambda>j. Some (table_dtype fs src (group_total fs src k j)))
                     [0..<length (date_headers src)]))
         (entity_keys src)"
  by (simp add: common_dtype_def holds_float64_transposed transposed_cols table_dtype_def o_def)

lemma common_dtype_index:
  "index (common_dtype (transpose_frame (groupby_sum fs (drop_columns src)))) = date_headers src"
  by (simp add: common_dtype_def transposed_index)

lemma dropna_all_Some:
  assumes cs: "cols df = map (\<lambda>k. (k, map (\<lambda>j. Some (f k j)) [0..<n])) ks"
    and n: "length (index df) = n"
  shows "dropna df = \<lparr>index = index df, cols = map (\<lambda>k. (k, map (f k) [0..<n])) ks\<rparr>"
proof -
  define sel where "sel = map (notna_row (cols df)) [0..<length (index df)]"
  have all: "\<forall>b\<in>set sel. b"
    by (auto simp: sel_def cs n notna_row_def list_all_iff cell_def)
  have len: "length sel = n"
    by (simp add: sel_def n)
  have k1: "keep sel (index df) = index df"
    by (rule keep_all) (use all len n in auto)
  have k2: "keep sel (map (\<lambda>j. Some (f k j)) [0..<n]) = map (\<lambda>j. Some (f k j)) [0..<n]" for k
    by (rule keep_all) (use all len in auto)
  have "dropna df = \<lparr>index = keep sel (index df),
                     cols = map (\<lambda>(c, vs). (c, List.map_filter id (keep sel vs))) (cols df)\<rparr>"
    by (simp add: dropna_def sel_def Let_def)
  also have "\<dots> = \<lparr>index = index df, cols = map (\<lambda>k. (k, map (f k) [0..<n])) ks\<rparr>"
    by (simp add: k1 cs k2 map_filter_id_Some)
  finally show ?thesis .
qed

lemma load_data_eq:
  "load_data to_datetime fs src =
     \<lparr>index = map to_datetime (date_headers src),
      cols = map (\<lambda>k. (k, map (\<lambda>j. table_dtype fs src (group_total fs src k j))
                             [0..<length (date_headers src)]))
                 (entity_keys src)\<rparr>"
proof -
  let ?n = "length (date_headers src)"
  let ?df = "set_index_datetime to_datetime
               (common_dtype (transpose_frame (groupby_sum fs (drop_columns src))))"
  have ix: "index ?df = map to_datetime (date_headers src)"
    by (simp add: set_index_datetime_def common_dtype_index)
  have cs: "cols ?df = map (\<lambda>k. (k, map (\<lambda>j. Some (table_dtype fs src (group_total fs src k j))) [0..<?n]))
                         (entity_keys src)"
    by (simp add: set_index_datetime_def common_dtype_cols)
  have "dropna ?df = \<lparr>index = index ?df,
                      cols = map (\<lambda>k. (k, map (\<lambda>j. table_dtype fs src (group_total fs src k j)) [0..<?n]))
                                 (entity_keys src)\<rparr>"
    by (rule dropna_all_Some [OF cs]) (simp add: ix)
  then show ?thesis
    by (simp add: load_data_def ix)
qed

lemma f64_exponent_small: "m < 2 ^ 53 \<Longrightarrow> f64_exponent m = 0"
  by (subst f64_exponent.simps) simp

lemma f64_exponent_big: "2 ^ 53 \<le> m \<Longrightarrow> f64_exponent m = Suc (f64_exponent (m div 2))"
  by (subst f64_exponent.simps) simp

lemma round_f64_small: "\<bar>n\<bar> < 2 ^ 53 \<Longrightarrow> round_f64 n = n"
  by (simp add: round_f64_def Let_def f64_exponent_small sgn_if)

lemma round_f64_pow53: "round_f64 (2 ^ 53) = 2 ^ 53" "round_f64 (- (2 ^ 53)) = - (2 ^ 53)"
  by (simp_all add: round_f64_def Let_def f64_exponent_small f64_exponent_big)

lemma round_f64_exact: "\<bar>n\<bar> \<le> 2 ^ 53 \<Longrightarrow> round_f64 n = n"
proof -
  assume "\<bar>n\<bar> \<le> 2 ^ 53"
  then consider "\<bar>n\<bar> < 2 ^ 53" | "n = 2 ^ 53" | "n = - (2 ^ 53)" by linarith
  then show ?thesis
    by cases (simp_all only: round_f64_small round_f64_pow53)
qed

lemma sint_diff_exact:
  fixes a b :: "64 word"
  assumes "\<bar>sint a - sint b\<bar> \<le> 2 ^ 53"
  shows "sint (a - b) = sint a - sint b"
proof -
  have "sint (a - b) = signed_take_bit 63 (sint a - sint b)"
    by (simp add: sint_word_ariths)
  also have "\<dots> = sint a - sint b"
    by (rule signed_take_bit_int_eq_self) (use assms in auto)
  finally show ?thesis .
qed

lemma diff_num_exact:
  assumes "is_int64 cur = is_int64 prev" and "\<bar>num_val cur - num_val prev\<bar> \<le> 2 ^ 53"
  shows "num_val (diff_num cur prev) = num_val cur - num_val prev"
proof (cases cur)
  case (I a)
  with assms(1) obtain b where b: "prev = I b" by (cases prev) (simp_all add: is_int64_def)
  from assms(2) have r: "\<bar>sint a - sint b\<bar> \<le> 2 ^ 53" by (simp add: I b num_val_def)
  then show ?thesis
    by (simp add: I b diff_num_def num_val_def sint_diff_exact round_f64_exact)
next
  case (F x)
  with assms(1) obtain y where y: "prev = F y" by (cases prev) (simp_all add: is_int64_def)
  from assms(2) show ?thesis
    by (simp add: F y diff_num_def num_val_def float_val_def round_f64_exact)
qed

lemma diff_col_length: "length (diff_col vs) = length vs"
  by (cases vs) simp_all

lemma diff_col_nth:
  "t < length vs \<Longrightarrow>
   diff_col vs ! t = (if t = 0 then None else Some (diff_num (vs ! t) (vs ! (t - 1))))"
proof (cases vs)
  case Nil
  then show "t < length vs \<Longrightarrow> ?thesis" by simp
next
  case (Cons v ws)
  assume "t < length vs"
  with Cons show ?thesis by (cases t) simp_all
qed

lemma cols_build_daily_cases:
  "cols (build_daily_cases df) =
     map (\<lambda>(c, vs). (c, map (\<lambda>v. case v of None \<Rightarrow> F 0 | Some x \<Rightarrow> x) (diff_col vs))) (cols df)"
  by (simp add: build_daily_cases_def fillna_def diff_def case_prod_unfold)

lemma index_build_daily_cases: "index (build_daily_cases df) = index df"
  by (simp add: build_daily_cases_def fillna_def diff_def)

text \<open>
  Claim C5, as the code has it. For every entity and every row of the cumulative table, the
  daily table of line 25 holds 0 in the first row and, in every other row, the difference
  between the value of the row and the value of the row before it as \<open>DataFrame.diff\<close>
  computes it: subtracted in the dtype of the table (in int64, where the subtraction wraps)
  and stored as float64. Whenever that difference is at most \<open>2^53\<close> in magnitude the stored
  value is the difference itself, a negative difference included: nothing clamps it to zero.
\<close>

theorem daily_cases_first_difference:
  assumes "map_of (cols df) e = Some vs" and "t < length vs"
  shows "\<exists>ds. map_of (cols (build_daily_cases df)) e = Some ds \<and> length ds = length vs
              \<and> ds ! t = (if t = 0 then F 0 else diff_num (vs ! t) (vs ! (t - 1)))
              \<and> (0 < t \<and> is_int64 (vs ! t) = is_int64 (vs ! (t - 1))
                    \<and> \<bar>num_val (vs ! t) - num_val (vs ! (t - 1))\<bar> \<le> 2 ^ 53
                  \<longrightarrow> num_val (ds ! t) = num_val (vs ! t) - num_val (vs ! (t - 1)))"
proof -
  let ?f = "\<lambda>vs. map (\<lambda>v. case v of None \<Rightarrow> F 0 | Some x \<Rightarrow> x) (diff_col vs)"
  have "map_of (cols (build_daily_cases df)) e = map_option ?f (map_of (cols df) e)"
    by (simp add: cols_build_daily_cases map_of_map)
  then have 1: "map_of (cols (build_daily_cases df)) e = Some (?f vs)"
    using assms(1) by simp
  have 2: "length (?f vs) = length vs"
    by (simp add: diff_col_length)
  have 3: "?f vs ! t = (if t = 0 then F 0 else diff_num (vs ! t) (vs ! (t - 1)))"
    using assms(2) by (simp add: diff_col_length diff_col_nth)
  have 4: "0 < t \<and> is_int64 (vs ! t) = is_int64 (vs ! (t - 1))
             \<and> \<bar>num_val (vs ! t) - num_val (vs ! (t - 1))\<bar> \<le> 2 ^ 53
           \<longrightarrow> num_val (?f vs ! t) = num_val (vs ! t) - num_val (vs ! (t - 1))"
    using 3 by (auto simp: diff_num_exact)
  from 1 2 3 4 show ?thesis by blast
qed

lemma diff_num_example: "diff_num (I 3) (I 5) = F (- 2)"
  by code_simp

theorem daily_cases_first_difference_witness:
  "\<exists>ds. map_of (cols (build_daily_cases
                       \<lparr>index = [Some 10, Some 20, Some (30::int)],
                        cols = [(''A'', [I 5, I 3, I 9])]\<rparr>)) ''A'' = Some ds
        \<and> length ds = 3 \<and> ds ! 1 = F (- 2) \<and> num_val (ds ! 1) = - 2"
  using daily_cases_first_difference
          [of "\<lparr>index = [Some 10, Some 20, Some (30::int)], cols = [(''A'', [I 5, I 3, I 9])]\<rparr>"
              "''A''" "[I 5, I 3, I 9]" 1]
  by (auto simp: diff_num_example num_val_def is_int64_def)

text \<open>
  A cumulative count of \<open>2^53 + 1\<close> after a count of 0: the difference is \<open>2^53 + 1\<close>, which
  no float64 holds, and the daily table holds \<open>2^53\<close>.
\<close>

theorem first_difference_counterexample:
  "map_of (cols (build_daily_cases
                   \<lparr>index = [Some 10, Some (20::int)],
                    cols = [(''A'', [I 0, I 9007199254740993])]\<rparr>)) ''A''
     = Some [F 0, F 9007199254740992]
   \<and> num_val (I 9007199254740993) - num_val (I 0) = 9007199254740993"
  by code_simp













lemma stable_argsort_stable:
  "filter (\<lambda>k. num_val (xs ! k) = v) (stable_argsort xs)
     = filter (\<lambda>k. num_val (xs ! k) = v) [0..<length xs]"
proof -
  let ?f = "\<lambda>p::nat \<times> num. num_val (snd p)"
  let ?Q = "\<lambda>p::nat \<times> num. num_val (xs ! fst p) = v"
  let ?E = "enumerate 0 xs"
  let ?S = "sort_key ?f ?E"
  have "filter ?Q ?S = filter (\<lambda>p. ?f p = v) ?S"
    by (rule filter_cong) (auto simp: in_set_enumerate_eq)
  also have "\<dots> = filter (\<lambda>p. ?f p = v) ?E"
    by (rule sort_key_stable)
  also have "\<dots> = filter ?Q ?E"
    by (rule filter_cong) (auto simp: in_set_enumerate_eq)
  finally have b: "filter ?Q ?S = filter ?Q ?E" .
  have "filter (\<lambda>k. num_val (xs ! k) = v) (map fst ?S) = map fst (filter ?Q ?S)"
    by (simp only: filter_map o_def)
  also have "\<dots> = map fst (filter ?Q ?E)"
    by (simp only: b)
  also have "\<dots> = filter (\<lambda>k. num_val (xs ! k) = v) (map fst ?E)"
    by (simp only: filter_map o_def)
  finally show ?thesis
    by (simp add: stable_argsort_def)
qed



lemma stable_order_example:
  "top_countries stable_argsort ranking_example = Inr [''A'', ''B'', ''C'', ''D'', ''E'']"
  by code_simp



lemma keep_map_filter: "keep (map P xs) xs = filter P xs"
  by (induction xs) (simp_all add: keep_def)



lemma loc_monotonic:
  assumes "str_bounds s = Some (lo, lo')" and "str_bounds e = Some (hi', hi)"
    and "is_monotonic_increasing (index df)"
  shows "loc str_bounds df s e =
           Inr \<lparr>index = filter (in_window lo hi) (index df),
                cols = map (\<lambda>(c, vs). (c, keep (map (in_window lo hi) (index df)) vs)) (cols df)\<rparr>"
  using assms by (simp add: loc_def Let_def keep_map_filter)






lemma px_line_unknown:
  "y \<notin> fst ` set (cols df) \<Longrightarrow> px_line df x [y] = Inl UnknownEntityError"
  by (simp add: px_line_def px_trace_def map_of_eq_None_iff [THEN iffD2])

text \<open>
  Claim C10. When the entity, the start date or the end date is \<open>None\<close> or the empty string,
  the callback returns \<open>dash.no_update\<close> for each of its four outputs (line 87), and it fails
  with no error.
\<close>

theorem update_graphs_no_update:
  assumes "py_not selected_country \<or> py_not start_date \<or> py_not end_date"
  shows "update_graphs argsort str_bounds g selected_country start_date end_date
           = (Inr (NoUpdate, NoUpdate, NoUpdate, NoUpdate), g)"
  using assms by (simp add: update_graphs_def)

theorem update_graphs_no_update_witness:
  "(py_not (Some ''France'') \<or> py_not None \<or> py_not (Some ''''))
   \<and> update_graphs stable_argsort demo_str_bounds demo_globals (Some ''France'') None (Some '''')
       = (Inr (NoUpdate, NoUpdate, NoUpdate, NoUpdate), demo_globals)"
  using update_graphs_no_update [of "Some ''France''" None "Some ''''" stable_argsort demo_str_bounds demo_globals]
  by (simp add: py_not_def)

lemma update_graphs_figures:
  "c \<noteq> [] \<Longrightarrow> s \<noteq> [] \<Longrightarrow> e \<noteq> [] \<Longrightarrow>
   update_graphs srt b g (Some c) (Some s) (Some e) = (figures srt b g c s e, g)"
  by (simp add: update_graphs_def py_not_def)

text \<open>
  Claim C2, for the calls that pass the guard of line 87. When the three arguments are not
  empty, both date strings parse and the timestamp axis is monotonic increasing, an entity
  that is not a column of the cumulative table makes the callback fail with the error that
  plotly express raises for a \<open>y\<close> that names no column.
\<close>

theorem unknown_entity_fails:
  assumes "c \<noteq> []" and "s \<noteq> []" and "e \<noteq> []"
    and bs: "str_bounds s = Some (lo, lo')" and be: "str_bounds e = Some (hi', hi)"
    and mono: "is_monotonic_increasing (index (data g))"
    and ix: "index (daily_cases g) = index (data g)"
    and unknown: "c \<notin> set (columns (data g))"
  shows "fst (update_graphs argsort str_bounds g (Some c) (Some s) (Some e)) = Inl UnknownEntityError"
proof -
  let ?fd = "\<lparr>index = filter (in_window lo hi) (index (data g)),
              cols = map (\<lambda>(c, vs). (c, keep (map (in_window lo hi) (index (data g))) vs)) (cols (data g))\<rparr>"
  have l1: "loc str_bounds (data g) s e = Inr ?fd"
    using bs be mono by (rule loc_monotonic)
  have "\<exists>fdaily. loc str_bounds (daily_cases g) s e = Inr fdaily"
    using loc_monotonic [OF bs be, of "daily_cases g"] mono ix by simp
  then obtain fdaily where l2: "loc str_bounds (daily_cases g) s e = Inr fdaily" ..
  have "c \<notin> fst ` set (cols ?fd)"
    using unknown by (force simp: columns_def)
  then have "px_line ?fd (index ?fd) [c] = Inl UnknownEntityError"
    by (rule px_line_unknown)
  then have "figures argsort str_bounds g c s e = Inl UnknownEntityError"
    by (simp add: figures_def l1 l2)
  then show ?thesis using assms(1-3) by (simp add: update_graphs_figures)
qed

theorem unknown_entity_fails_witness:
  "fst (update_graphs stable_argsort demo_str_bounds demo_globals
          (Some ''Atlantis'') (Some ''2020-01-22'') (Some ''2020-01-24'')) = Inl UnknownEntityError"
  by (rule unknown_entity_fails [where lo = 10 and lo' = 19 and hi' = 30 and hi = 39])
     (simp_all add: demo_str_bounds_def demo_globals_def ranking_example_def
        is_monotonic_increasing_def index_build_daily_cases columns_def)

text \<open>
  The empty string is no column of the example table, and the callback returns no-update for
  it: the guard of line 87 runs before any column is looked up.
\<close>

theorem unknown_entity_counterexample:
  "''''  \<notin> set (columns (data demo_globals))
   \<and> fst (update_graphs stable_argsort demo_str_bounds demo_globals
          (Some '''') (Some ''2020-01-22'') (Some ''2020-01-24''))
       = Inr (NoUpdate, NoUpdate, NoUpdate, NoUpdate)"
  by (simp add: update_graphs_def py_not_def demo_globals_def ranking_example_def columns_def)

text \<open>
  Claim C10. When the entity, the start date or the end date is \<open>None\<close> or the empty string,
  the callback returns \<open>dash.no_update\<close> for each of its four outputs (line 87), and it fails
  with no error.
\<close>

theorem empty_window_raises:
  "fst (update_graphs stable_argsort demo_str_bounds demo_globals
          (Some ''A'') (Some ''2020-02-01'') (Some ''2020-02-01'')) = Inl IndexError
   \<and> fst (update_graphs stable_argsort demo_str_bounds demo_globals
          (Some ''A'') (Some ''2020-01-24'') (Some ''2020-01-22'')) = Inl IndexError"
  by code_simp











lemma window_ranking_example:
  "map_option (\<lambda>(fc, fd, tc, td). (map fst tc, map fst td))
     (case fst (update_graphs stable_argsort demo_str_bounds demo_globals
              (Some ''A'') (Some ''2020-01-22'') (Some ''2020-01-23'')) of
        Inr (Figure fc, Figure fd, Figure tc, Figure td) \<Rightarrow> Some (fc, fd, tc, td) | _ \<Rightarrow> None)
   = Some ([''F'', ''B'', ''C'', ''D'', ''E''], [''F'', ''B'', ''C'', ''D'', ''E''])"
  by code_simp

lemma entity_keys_eq:
  "entity_keys src = sort (remdups (List.map_filter country_region (raw_rows src)))"
  by (simp add: entity_keys_def group_keys_def List.map_filter_def filter_map o_def)

lemma set_entity_keys:
  "set (entity_keys src) = {k. \<exists>r\<in>set (raw_rows src). country_region r = Some k}"
  by (auto simp: entity_keys_eq List.map_filter_def image_iff) force


lemma columns_load_data: "columns (load_data to_datetime fs src) = entity_keys src"
  by (simp add: columns_def load_data_eq o_def)

lemma index_load_data: "index (load_data to_datetime fs src) = map to_datetime (date_headers src)"
  by (simp add: load_data_eq)











lemma load_missing_cell:
  "load_data demo_to_datetime fs missing_cell =
     \<lparr>index = [Some 10, Some 20],
      cols = [(''Canada'', [F 12, F (fs [Some 8, Some 9])]), (''France'', [F 3, F (fs [None])])]\<rparr>"
  by code_simp

text \<open>
  Claim C6, as the code has it. The loader has no check of the table's size and raises no
  error on a source without data: without date columns it returns a table whose timestamp
  axis is empty and whose columns are the source's entities in sorted order, and without rows
  it returns a table with no column whose axis is the parsed date headers.
\<close>

theorem loader_returns_empty_table:
  "(date_headers src = [] \<longrightarrow>
      index (load_data to_datetime float_sum src) = []
      \<and> columns (load_data to_datetime float_sum src)
          = sort (remdups (List.map_filter country_region (raw_rows src))))
   \<and> (raw_rows src = [] \<longrightarrow>
      columns (load_data to_datetime float_sum src) = []
      \<and> index (load_data to_datetime float_sum src) = map to_datetime (date_headers src))"
  by (simp add: index_load_data columns_load_data entity_keys_eq List.map_filter_def)

theorem loader_returns_empty_table_witness:
  "date_headers no_rows_no_dates = [] \<and> raw_rows no_rows_no_dates = []
   \<and> index (load_data demo_to_datetime demo_float_sum no_rows_no_dates) = []
   \<and> columns (load_data demo_to_datetime demo_float_sum no_rows_no_dates) = []"
  using loader_returns_empty_table [where src = no_rows_no_dates and to_datetime = demo_to_datetime
          and float_sum = demo_float_sum]
  by (simp add: no_rows_no_dates_def)

text \<open>
  A source with one row and no date column loads as a table with the column France and no
  row; no error is raised.
\<close>

theorem empty_dataset_counterexample:
  "load_data demo_to_datetime demo_float_sum no_dates = \<lparr>index = [], cols = [(''France'', [])]\<rparr>"
  by code_simp




lemma unparsed_header_kept:
  "index (load_data demo_to_datetime demo_float_sum
            \<lparr>date_headers = [''1/22/20'', ''Population''],
             raw_rows = [\<lparr>province_state = None, country_region = Some ''France'',
                          lat = None, long = None, counts = [Some 3, Some 67]\<rparr>]\<rparr>)
     = [Some 10, None]"
  by (simp add: index_load_data demo_to_datetime_def)


end
